theory Spec2Isabelle
  imports Main
begin

section \<open>Data model of workbook.go\<close>

text \<open>
  Errors are values. \<open>EOF\<close> is Go's \<open>io.EOF\<close>; \<open>ErrUnprotectWorkbook\<close> and
  \<open>ErrUnprotectWorkbookPassword\<close> are the two package errors that \<open>UnprotectWorkbook\<close>
  returns; the remaining constructors stand for the errors that the XML decoder and
  \<open>genISOPasswdHash\<close> hand back.
\<close>

datatype error =
    EOF
  | ErrUnprotectWorkbook
  | ErrUnprotectWorkbookPassword
  | ErrUnsupportedHashAlgorithm
  | OtherError string

text \<open>The option structs of the public API: a nil pointer field is \<open>None\<close>.\<close>

record WorkbookPropsOptions =
  Date1904 :: "bool option"
  FilterPrivacy :: "bool option"
  CodeName :: "string option"

record WorkbookProtectionOptions =
  AlgorithmName :: string
  Password :: string
  LockStructure :: bool
  LockWindows :: bool

text \<open>
  The parts of the decoded \<open>workbook.xml\<close> that workbook.go reads or writes. The field
  names of \<open>xlsxWorkbookPr\<close> and \<open>xlsxWorkbookProtection\<close> repeat names of the option
  structs, as in the Go code; an unqualified name means the field of the
  decoded struct, and the option structs' fields are written qualified.
\<close>

record xlsxWorkbookPr =
  Date1904 :: bool
  FilterPrivacy :: bool
  CodeName :: string

record xlsxWorkbookProtection =
  LockStructure :: bool
  LockWindows :: bool
  WorkbookAlgorithmName :: string
  WorkbookSaltValue :: string
  WorkbookHashValue :: string
  WorkbookSpinCount :: int

record xlsxSheet =
  Name :: string
  SheetID :: int
  ID :: string

record xlsxWorkbook =
  WorkbookPr :: "xlsxWorkbookPr option"
  WorkbookProtection :: "xlsxWorkbookProtection option"
  Sheets :: "xlsxSheet list"
  AlternateContent :: "string option"
  DecodeAlternateContent :: "string option"

record xlsxRelationship =
  Type :: string
  Target :: string

text \<open>The zero values that Go's \<open>new(T)\<close> allocates.\<close>

definition new_xlsxWorkbookPr :: xlsxWorkbookPr where
  "new_xlsxWorkbookPr =
     \<lparr>xlsxWorkbookPr.Date1904 = False, xlsxWorkbookPr.FilterPrivacy = False,
      xlsxWorkbookPr.CodeName = []\<rparr>"

definition new_xlsxWorkbookProtection :: xlsxWorkbookProtection where
  "new_xlsxWorkbookProtection =
     \<lparr>xlsxWorkbookProtection.LockStructure = False, xlsxWorkbookProtection.LockWindows = False,
      WorkbookAlgorithmName = [], WorkbookSaltValue = [], WorkbookHashValue = [],
      WorkbookSpinCount = 0\<rparr>"

definition new_WorkbookProtectionOptions :: WorkbookProtectionOptions where
  "new_WorkbookProtectionOptions =
     \<lparr>AlgorithmName = [], Password = [],
      WorkbookProtectionOptions.LockStructure = False,
      WorkbookProtectionOptions.LockWindows = False\<rparr>"

definition new_xlsxWorkbook :: xlsxWorkbook where
  "new_xlsxWorkbook =
     \<lparr>WorkbookPr = None, WorkbookProtection = None, Sheets = [],
      AlternateContent = None, DecodeAlternateContent = None\<rparr>"

text \<open>
  The receiver \<open>*File\<close>: the cached workbook pointer (\<open>None\<close> is nil) and the table of
  root-element attributes keyed by part path.
\<close>

record File =
  WorkBook :: "xlsxWorkbook option"
  xmlAttr :: "string \<rightharpoonup> string list"

text \<open>
  What workbook.go calls but does not define is a parameter of the model: the
  relationship reader, the container read, the namespace rewrite, the XML decoder
  (\<open>Decode\<close> takes the bytes and the value the target holds, and gives the value the
  target holds afterwards together with Go's error), the root-element scan, the
  namespace registration, the password hash, and the two package constants.
\<close>

record collab =
  relsReader :: "string \<Rightarrow> xlsxRelationship list option"
  readXML :: "string \<Rightarrow> string"
  namespaceStrictToTransitional :: "string \<Rightarrow> string"
  Decode :: "string \<Rightarrow> xlsxWorkbook \<Rightarrow> xlsxWorkbook \<times> error option"
  getRootElement :: "string \<Rightarrow> string list"
  addNameSpaces :: "File \<Rightarrow> string \<Rightarrow> File"
  genISOPasswdHash :: "string \<Rightarrow> string \<Rightarrow> string \<Rightarrow> int \<Rightarrow> error + (string \<times> string)"
  workbookProtectionSpinCount :: int
  SourceRelationshipOfficeDocument :: string

section \<open>Library functions of Go used by workbook.go\<close>

text \<open>\<open>strings.TrimPrefix\<close>: drops the prefix once when the string starts with it.\<close>

definition strings_TrimPrefix :: "string \<Rightarrow> string \<Rightarrow> string" where
  "strings_TrimPrefix s p = (if take (length p) s = p then drop (length p) s else s)"

text \<open>
  \<open>strconv.Itoa\<close>: the decimal digits of an integer, most significant first, with a
  minus sign for a negative one.
\<close>

definition digit_char :: "nat \<Rightarrow> char" where
  "digit_char d = ''0123456789'' ! (d mod 10)"

function nat_digits :: "nat \<Rightarrow> string" where
  "nat_digits n =
     (if n < 10 then [digit_char n] else nat_digits (n div 10) @ [digit_char (n mod 10)])"
  by pat_completeness auto
termination
  by (relation "measure id") auto

declare nat_digits.simps [simp del]

definition strconv_Itoa :: "int \<Rightarrow> string" where
  "strconv_Itoa i = (if i < 0 then CHR ''-'' # nat_digits (nat (- i)) else nat_digits (nat i))"

text \<open>
  The number that a string of decimal digits denotes, to state that \<open>strconv_Itoa\<close>
  writes its argument in decimal.
\<close>

definition decimal_value :: "string \<Rightarrow> nat" where
  "decimal_value s = foldl (\<lambda>a ch. 10 * a + (of_char ch - 48)) 0 s"

text \<open>
  \<open>path/filepath\<close> with the separator \<open>/\<close> and no volume names. \<open>Clean\<close> works on the
  elements between separators: empty elements and \<open>.\<close> are dropped, \<open>..\<close> removes the
  element before it when there is one to remove, is kept at the start of a path that is
  not rooted and is dropped at the root; an empty result is \<open>.\<close>.
\<close>

fun split_sep :: "string \<Rightarrow> string list" where
  "split_sep [] = [[]]"
| "split_sep (ch # s) =
     (if ch = CHR ''/'' then [] # split_sep s
      else (case split_sep s of [] \<Rightarrow> [[ch]] | e # es \<Rightarrow> (ch # e) # es))"

fun join_sep :: "string list \<Rightarrow> string" where
  "join_sep [] = []"
| "join_sep [e] = e"
| "join_sep (e # es) = e @ ''/'' @ join_sep es"

fun clean_elems :: "bool \<Rightarrow> string list \<Rightarrow> string list \<Rightarrow> string list" where
  "clean_elems rooted [] out = out"
| "clean_elems rooted (e # es) out =
     (if e = [] \<or> e = ''.'' then clean_elems rooted es out
      else if e = ''..'' then
        (if out \<noteq> [] \<and> last out \<noteq> ''..'' then clean_elems rooted es (butlast out)
         else if \<not> rooted then clean_elems rooted es (out @ [''..''])
         else clean_elems rooted es out)
      else clean_elems rooted es (out @ [e]))"

definition filepath_Clean :: "string \<Rightarrow> string" where
  "filepath_Clean path =
     (if path = [] then ''.''
      else
        (let rooted = (hd path = CHR ''/'');
             body = join_sep (clean_elems rooted (split_sep path) [])
         in if rooted then CHR ''/'' # body
            else if body = [] then ''.'' else body))"

text \<open>\<open>Dir\<close> cleans the path up to and including its last separator.\<close>

definition filepath_Dir :: "string \<Rightarrow> string" where
  "filepath_Dir path = filepath_Clean (rev (dropWhile (\<lambda>ch. ch \<noteq> CHR ''/'') (rev path)))"

text \<open>
  \<open>Base\<close>: \<open>.\<close> for the empty path; otherwise trailing separators are stripped and the
  last element is taken, a path of separators only giving \<open>/\<close>.
\<close>

definition filepath_Base :: "string \<Rightarrow> string" where
  "filepath_Base path =
     (if path = [] then ''.''
      else
        (let p1 = rev (dropWhile (\<lambda>ch. ch = CHR ''/'') (rev path));
             p2 = rev (takeWhile (\<lambda>ch. ch \<noteq> CHR ''/'') (rev p1))
         in if p2 = [] then ''/'' else p2))"

section \<open>Path resolution\<close>

text \<open>
  The loop of \<open>getWorkbookPath\<close> over \<open>rels.Relationships\<close>: the first relationship of the
  office-document type decides; with none, the named result keeps its zero value.
\<close>

fun findWorkbookTarget :: "string \<Rightarrow> xlsxRelationship list \<Rightarrow> string" where
  "findWorkbookTarget ty [] = []"
| "findWorkbookTarget ty (rel # rels) =
     (if Type rel = ty then strings_TrimPrefix (Target rel) ''/''
      else findWorkbookTarget ty rels)"

definition getWorkbookPath :: "collab \<Rightarrow> string" where
  "getWorkbookPath c =
     (case relsReader c ''_rels/.rels'' of
        Some rels \<Rightarrow> findWorkbookTarget (SourceRelationshipOfficeDocument c) rels
      | None \<Rightarrow> [])"

text \<open>\<open>getWorkbookRelsPath\<close>: the relationship part that belongs to the workbook part.\<close>

definition getWorkbookRelsPath :: "collab \<Rightarrow> string" where
  "getWorkbookRelsPath c =
     (let wbPath = getWorkbookPath c;
          wbDir = filepath_Dir wbPath
      in if wbDir = ''.'' then ''_rels/'' @ filepath_Base wbPath @ ''.rels''
         else strings_TrimPrefix
                (filepath_Dir wbPath @ ''/_rels/'' @ filepath_Base wbPath @ ''.rels'') ''/'')"

section \<open>The cached reader\<close>

text \<open>
  \<open>workbookReader\<close> returns the pointer and the error; the pointer is \<open>f.WorkBook\<close>
  itself, so the model returns the updated \<open>File\<close> and the value it now caches.
  \<open>f.WorkBook\<close> is assigned before decoding and \<open>Decode\<close> fills it in place, so it
  stays assigned whatever \<open>Decode\<close> returns. The guard \<open>err != nil && err != io.EOF\<close>
  returns at once; every other case reaches the final \<open>return f.WorkBook, err\<close> with
  the same \<open>err\<close>.
\<close>

definition workbookReader :: "collab \<Rightarrow> File \<Rightarrow> File \<times> xlsxWorkbook \<times> error option" where
  "workbookReader c f =
     (case WorkBook f of
        Some wb \<Rightarrow> (f, wb, None)
      | None \<Rightarrow>
          (let wbPath = getWorkbookPath c;
               f1 = f\<lparr>WorkBook := Some new_xlsxWorkbook\<rparr>;
               f2 = (case xmlAttr f1 wbPath of
                       None \<Rightarrow>
                         (let d = namespaceStrictToTransitional c (readXML c wbPath)
                          in addNameSpaces c
                               (f1\<lparr>xmlAttr := (xmlAttr f1)(wbPath \<mapsto> [] @ getRootElement c d)\<rparr>)
                               wbPath)
                     | Some attrs \<Rightarrow> f1);
               (wb, err) = Decode c (namespaceStrictToTransitional c (readXML c wbPath))
                                    new_xlsxWorkbook;
               f3 = f2\<lparr>WorkBook := Some wb\<rparr>
           in (if err \<noteq> None \<and> err \<noteq> Some EOF then (f3, wb, err)
               else (f3, wb, err))))"

section \<open>Workbook properties\<close>

text \<open>
  Each mutator works through the pointer that \<open>workbookReader\<close> returned, so every
  assignment to \<open>wb\<close> is an assignment to \<open>f.WorkBook\<close>. \<open>SetWorkbookProps\<close> allocates
  \<open>wb.WorkbookPr\<close> when it is nil and only then looks at \<open>opts\<close>.
\<close>

definition SetWorkbookProps ::
  "collab \<Rightarrow> File \<Rightarrow> WorkbookPropsOptions option \<Rightarrow> File \<times> error option" where
  "SetWorkbookProps c f opts =
     (case workbookReader c f of
        (f1, wb, Some err) \<Rightarrow> (f1, Some err)
      | (f1, wb, None) \<Rightarrow>
          (let pr = (case WorkbookPr wb of None \<Rightarrow> new_xlsxWorkbookPr | Some p \<Rightarrow> p);
               wb1 = wb\<lparr>WorkbookPr := Some pr\<rparr>
           in (case opts of
                 None \<Rightarrow> (f1\<lparr>WorkBook := Some wb1\<rparr>, None)
               | Some op \<Rightarrow>
                   (let pr1 = (case WorkbookPropsOptions.Date1904 op of
                                 Some v \<Rightarrow> pr\<lparr>Date1904 := v\<rparr>
                               | None \<Rightarrow> pr);
                        pr2 = (case WorkbookPropsOptions.FilterPrivacy op of
                                 Some v \<Rightarrow> pr1\<lparr>FilterPrivacy := v\<rparr>
                               | None \<Rightarrow> pr1);
                        pr3 = (case WorkbookPropsOptions.CodeName op of
                                 Some v \<Rightarrow> pr2\<lparr>CodeName := v\<rparr>
                               | None \<Rightarrow> pr2)
                    in (f1\<lparr>WorkBook := Some (wb1\<lparr>WorkbookPr := Some pr3\<rparr>)\<rparr>, None)))))"

definition GetWorkbookProps ::
  "collab \<Rightarrow> File \<Rightarrow> File \<times> WorkbookPropsOptions \<times> error option" where
  "GetWorkbookProps c f =
     (let opts = \<lparr>WorkbookPropsOptions.Date1904 = None,
                  WorkbookPropsOptions.FilterPrivacy = None,
                  WorkbookPropsOptions.CodeName = None\<rparr>
      in (case workbookReader c f of
            (f1, wb, Some err) \<Rightarrow> (f1, opts, Some err)
          | (f1, wb, None) \<Rightarrow>
              (case WorkbookPr wb of
                 Some pr \<Rightarrow>
                   (f1, \<lparr>WorkbookPropsOptions.Date1904 = Some (xlsxWorkbookPr.Date1904 pr),
                         WorkbookPropsOptions.FilterPrivacy = Some (xlsxWorkbookPr.FilterPrivacy pr),
                         WorkbookPropsOptions.CodeName = Some (xlsxWorkbookPr.CodeName pr)\<rparr>, None)
               | None \<Rightarrow> (f1, opts, None))))"

section \<open>Workbook protection\<close>

text \<open>
  \<open>ProtectWorkbook\<close> allocates the record when it is nil, then assigns a new record
  that holds the two lock flags of \<open>opts\<close> and zero values elsewhere, and only then, for a
  non-empty password, calls \<open>genISOPasswdHash\<close> with the empty salt. On its error the
  function returns with the record as assigned so far. The default algorithm name is
  also written into the caller's \<open>opts\<close>; the model keeps it in \<open>alg\<close> only, since
  nothing here reads \<open>opts\<close> afterwards.
\<close>

definition ProtectWorkbook ::
  "collab \<Rightarrow> File \<Rightarrow> WorkbookProtectionOptions option \<Rightarrow> File \<times> error option" where
  "ProtectWorkbook c f opts =
     (case workbookReader c f of
        (f1, wb, Some err) \<Rightarrow> (f1, Some err)
      | (f1, wb, None) \<Rightarrow>
          (let wb1 = (if WorkbookProtection wb = None
                      then wb\<lparr>WorkbookProtection := Some new_xlsxWorkbookProtection\<rparr>
                      else wb);
               op = (case opts of None \<Rightarrow> new_WorkbookProtectionOptions | Some op' \<Rightarrow> op');
               prot = \<lparr>xlsxWorkbookProtection.LockStructure = WorkbookProtectionOptions.LockStructure op,
                       xlsxWorkbookProtection.LockWindows = WorkbookProtectionOptions.LockWindows op,
                       WorkbookAlgorithmName = [], WorkbookSaltValue = [],
                       WorkbookHashValue = [], WorkbookSpinCount = 0\<rparr>;
               wb2 = wb1\<lparr>WorkbookProtection := Some prot\<rparr>
           in if Password op \<noteq> [] then
                (let alg = (if AlgorithmName op = [] then ''SHA-512'' else AlgorithmName op)
                 in (case genISOPasswdHash c (Password op) alg [] (workbookProtectionSpinCount c) of
                       Inl err \<Rightarrow> (f1\<lparr>WorkBook := Some wb2\<rparr>, Some err)
                     | Inr (hashValue, saltValue) \<Rightarrow>
                         (f1\<lparr>WorkBook := Some (wb2\<lparr>WorkbookProtection :=
                                 Some (prot\<lparr>WorkbookAlgorithmName := alg,
                                            WorkbookSaltValue := saltValue,
                                            WorkbookHashValue := hashValue,
                                            WorkbookSpinCount := workbookProtectionSpinCount c\<rparr>)\<rparr>)\<rparr>,
                          None)))
              else (f1\<lparr>WorkBook := Some wb2\<rparr>, None)))"

text \<open>
  \<open>UnprotectWorkbook(password ...string)\<close>: the variadic argument is a list, and
  \<open>password[0]\<close> is read only when the list is not empty.
\<close>

definition UnprotectWorkbook :: "collab \<Rightarrow> File \<Rightarrow> string list \<Rightarrow> File \<times> error option" where
  "UnprotectWorkbook c f password =
     (case workbookReader c f of
        (f1, wb, Some err) \<Rightarrow> (f1, Some err)
      | (f1, wb, None) \<Rightarrow>
          (let cleared = (f1\<lparr>WorkBook := Some (wb\<lparr>WorkbookProtection := None\<rparr>)\<rparr>, None)
           in (case password of
                 [] \<Rightarrow> cleared
               | pw # rest \<Rightarrow>
                   (case WorkbookProtection wb of
                      None \<Rightarrow> (f1, Some ErrUnprotectWorkbook)
                    | Some prot \<Rightarrow>
                        if WorkbookAlgorithmName prot \<noteq> [] then
                          (case genISOPasswdHash c pw (WorkbookAlgorithmName prot)
                                  (WorkbookSaltValue prot) (WorkbookSpinCount prot) of
                             Inl err \<Rightarrow> (f1, Some err)
                           | Inr (hashValue, saltValue) \<Rightarrow>
                               if WorkbookHashValue prot \<noteq> hashValue
                               then (f1, Some ErrUnprotectWorkbookPassword)
                               else cleared)
                        else cleared))))"

section \<open>Registering a sheet\<close>

text \<open>
  \<open>setWorkbook\<close> discards the error of \<open>workbookReader\<close> and appends to the sheet list
  of whatever workbook it returned; it has no result.
\<close>

definition setWorkbook :: "collab \<Rightarrow> File \<Rightarrow> string \<Rightarrow> int \<Rightarrow> int \<Rightarrow> File" where
  "setWorkbook c f name sheetID rid =
     (case workbookReader c f of
        (f1, wb, _) \<Rightarrow>
          f1\<lparr>WorkBook := Some (wb\<lparr>Sheets := Sheets wb @
                 [\<lparr>Name = name, SheetID = sheetID, ID = ''rId'' @ strconv_Itoa rid\<rparr>]\<rparr>)\<rparr>)"

section \<open>Concrete collaborators and inputs\<close>

text \<open>
  Stand-ins for the collaborators, used only where a statement is evaluated at a concrete
  input. \<open>toy_hash\<close> accepts the digest names of the hash collaborator, draws the fixed
  salt \<open>c2FsdA==\<close> when it is given none, and "hashes" by writing algorithm, salt and
  password side by side; it is not the digest of the library, only a function with the
  same interface.
\<close>

definition toy_hash :: "string \<Rightarrow> string \<Rightarrow> string \<Rightarrow> int \<Rightarrow> error + (string \<times> string)" where
  "toy_hash passwd alg salt spin =
     (if alg \<in> set [''MD4'', ''MD5'', ''SHA-1'', ''SHA-256'', ''SHA-384'', ''SHA-512'']
      then (let s = (if salt = [] then ''c2FsdA=='' else salt)
            in Inr (alg @ '':'' @ s @ '':'' @ passwd, s))
      else Inl ErrUnsupportedHashAlgorithm)"

definition toy_Decode :: "string \<Rightarrow> xlsxWorkbook \<Rightarrow> xlsxWorkbook \<times> error option" where
  "toy_Decode bytes wb =
     (if bytes = [] then (wb, Some EOF)
      else if bytes = ''<workbook/>'' then (wb, None)
      else (wb\<lparr>Sheets := [\<lparr>Name = ''Sheet1'', SheetID = 1, ID = ''rId1''\<rparr>]\<rparr>,
            Some (OtherError ''XML syntax error'')))"

definition app_rel :: xlsxRelationship where
  "app_rel = \<lparr>Type = ''extended-properties'', Target = ''docProps/app.xml''\<rparr>"

definition doc_rel :: xlsxRelationship where
  "doc_rel = \<lparr>Type = ''officeDocument'', Target = ''/xl/workbook.xml''\<rparr>"

definition root_rel :: xlsxRelationship where
  "root_rel = \<lparr>Type = ''officeDocument'', Target = ''workbook.xml''\<rparr>"

definition toy_rels :: "string \<Rightarrow> xlsxRelationship list option" where
  "toy_rels path = (if path = ''_rels/.rels'' then Some [app_rel, doc_rel] else None)"

definition toy_collab :: "string \<Rightarrow> collab" where
  "toy_collab part =
     \<lparr>relsReader = toy_rels,
      readXML = (\<lambda>path. if path = ''xl/workbook.xml'' then part else []),
      namespaceStrictToTransitional = (\<lambda>bytes. bytes),
      Decode = toy_Decode,
      getRootElement = (\<lambda>bytes. []),
      addNameSpaces = (\<lambda>f path. f),
      genISOPasswdHash = toy_hash,
      workbookProtectionSpinCount = 100000,
      SourceRelationshipOfficeDocument = ''officeDocument''\<rparr>"

definition unloaded_file :: File where
  "unloaded_file = \<lparr>WorkBook = None, xmlAttr = Map.empty\<rparr>"

definition sheet1 :: xlsxSheet where
  "sheet1 = \<lparr>Name = ''Sheet1'', SheetID = 1, ID = ''rId1''\<rparr>"

definition plain_workbook :: xlsxWorkbook where
  "plain_workbook = new_xlsxWorkbook\<lparr>Sheets := [sheet1]\<rparr>"

definition plain_file :: File where
  "plain_file = \<lparr>WorkBook = Some plain_workbook, xmlAttr = Map.empty\<rparr>"

definition keyed_protection :: xlsxWorkbookProtection where
  "keyed_protection =
     \<lparr>xlsxWorkbookProtection.LockStructure = True, xlsxWorkbookProtection.LockWindows = False,
      WorkbookAlgorithmName = ''SHA-512'', WorkbookSaltValue = ''c2FsdA=='',
      WorkbookHashValue = ''SHA-512:c2FsdA==:password'', WorkbookSpinCount = 100000\<rparr>"

definition keyed_file :: File where
  "keyed_file =
     \<lparr>WorkBook = Some (plain_workbook\<lparr>WorkbookProtection := Some keyed_protection\<rparr>),
      xmlAttr = Map.empty\<rparr>"

definition flags_only_opts :: WorkbookProtectionOptions where
  "flags_only_opts =
     \<lparr>AlgorithmName = [], Password = [],
      WorkbookProtectionOptions.LockStructure = False,
      WorkbookProtectionOptions.LockWindows = True\<rparr>"

definition ripemd_opts :: WorkbookProtectionOptions where
  "ripemd_opts =
     \<lparr>AlgorithmName = ''RIPEMD-160'', Password = ''password'',
      WorkbookProtectionOptions.LockStructure = False,
      WorkbookProtectionOptions.LockWindows = True\<rparr>"

definition password_opts :: WorkbookProtectionOptions where
  "password_opts =
     \<lparr>AlgorithmName = [], Password = ''password'',
      WorkbookProtectionOptions.LockStructure = True,
      WorkbookProtectionOptions.LockWindows = False\<rparr>"

text \<open>
  A second stand-in for the hash function: it rejects a password that is empty or
  longer than 255 bytes before it looks at anything else, and is \<open>toy_hash\<close>
  otherwise.
\<close>

definition strict_hash :: "string \<Rightarrow> string \<Rightarrow> string \<Rightarrow> int \<Rightarrow> error + (string \<times> string)" where
  "strict_hash passwd alg salt spin =
     (if length passwd < 1 \<or> length passwd > 255
      then Inl (OtherError ''password length invalid'')
      else toy_hash passwd alg salt spin)"

definition strict_collab :: collab where
  "strict_collab = (toy_collab [])\<lparr>genISOPasswdHash := strict_hash\<rparr>"

definition rels_collab :: "xlsxRelationship list option \<Rightarrow> collab" where
  "rels_collab rels =
     (toy_collab [])\<lparr>relsReader := (\<lambda>path. if path = ''_rels/.rels'' then rels else None)\<rparr>"

text \<open>
  A path element that \<open>Clean\<close> keeps as it is: not empty, not \<open>.\<close>, not \<open>..\<close>, and
  without a separator.
\<close>

definition plain_elem :: "string \<Rightarrow> bool" where
  "plain_elem e \<longleftrightarrow> e \<noteq> [] \<and> e \<noteq> ''.'' \<and> e \<noteq> ''..'' \<and> CHR ''/'' \<notin> set e"

section \<open>Facts about the reader\<close>

lemma workbookReader_cached:
  "WorkBook f = Some wb \<Longrightarrow> workbookReader c f = (f, wb, None)"
  by (simp add: workbookReader_def)

lemma workbookReader_cached_lit:
  "workbookReader c \<lparr>WorkBook = Some wb, xmlAttr = m\<rparr>
     = (\<lparr>WorkBook = Some wb, xmlAttr = m\<rparr>, wb, None)"
  by (simp add: workbookReader_def)

lemma workbookReader_load:
  assumes "WorkBook f = None"
    and "Decode c (namespaceStrictToTransitional c (readXML c (getWorkbookPath c)))
           new_xlsxWorkbook = (wb, err)"
  shows "\<exists>f'. workbookReader c f = (f', wb, err) \<and> WorkBook f' = Some wb"
  using assms by (simp add: workbookReader_def Let_def split: option.splits)

lemma workbookReader_caches:
  "workbookReader c f = (f1, wb, err) \<Longrightarrow> WorkBook f1 = Some wb"
  by (auto simp add: workbookReader_def Let_def split: option.splits prod.splits)

lemma getWorkbookPath_hash_irrelevant:
  "getWorkbookPath (c\<lparr>genISOPasswdHash := h\<rparr>) = getWorkbookPath c"
  by (simp add: getWorkbookPath_def split: option.splits)

lemma workbookReader_hash_irrelevant:
  "workbookReader (c\<lparr>genISOPasswdHash := h\<rparr>) f = workbookReader c f"
  by (simp add: workbookReader_def getWorkbookPath_hash_irrelevant Let_def
        split: option.splits prod.splits)

subsection \<open>The concrete collaborators\<close>

lemma toy_collab_sel [simp]:
  "relsReader (toy_collab part) = toy_rels"
  "readXML (toy_collab part) ''xl/workbook.xml'' = part"
  "namespaceStrictToTransitional (toy_collab part) bytes = bytes"
  "Decode (toy_collab part) = toy_Decode"
  "getRootElement (toy_collab part) bytes = []"
  "addNameSpaces (toy_collab part) f path = f"
  "genISOPasswdHash (toy_collab part) = toy_hash"
  "workbookProtectionSpinCount (toy_collab part) = 100000"
  "SourceRelationshipOfficeDocument (toy_collab part) = ''officeDocument''"
  by (simp_all add: toy_collab_def)

lemma toy_path [simp]: "getWorkbookPath (toy_collab part) = ''xl/workbook.xml''"
  by (simp add: getWorkbookPath_def toy_rels_def app_rel_def doc_rel_def strings_TrimPrefix_def)

lemma toy_reader_unloaded:
  "workbookReader (toy_collab part) unloaded_file =
     (\<lparr>WorkBook = Some (fst (toy_Decode part new_xlsxWorkbook)),
       xmlAttr = [''xl/workbook.xml'' \<mapsto> []]\<rparr>,
      fst (toy_Decode part new_xlsxWorkbook), snd (toy_Decode part new_xlsxWorkbook))"
  by (simp add: workbookReader_def Let_def unloaded_file_def split_beta)

lemma keyed_reader:
  "workbookReader c keyed_file
     = (keyed_file, plain_workbook\<lparr>WorkbookProtection := Some keyed_protection\<rparr>, None)"
  by (simp add: workbookReader_cached keyed_file_def)

lemma plain_reader:
  "workbookReader c plain_file = (plain_file, plain_workbook, None)"
  by (simp add: workbookReader_cached plain_file_def)

lemma plain_workbook_bare:
  "WorkbookPr plain_workbook = None" "WorkbookProtection plain_workbook = None"
  by (simp_all add: plain_workbook_def new_xlsxWorkbook_def)

section \<open>The reader on an empty and on a malformed part\<close>

text \<open>
  C4. On a wholly empty part the decoder yields \<open>io.EOF\<close>. The guard in
  \<open>workbookReader\<close> lets that case pass, but the final return hands the same error
  value back: the first call returns the empty workbook together with \<open>EOF\<close>, not with a
  nil error, and a caller such as \<open>SetWorkbookProps\<close> returns \<open>EOF\<close>.
\<close>

theorem workbookReader_empty_part:
  assumes "WorkBook f = None"
    and "Decode c (namespaceStrictToTransitional c (readXML c (getWorkbookPath c)))
           new_xlsxWorkbook = (new_xlsxWorkbook, Some EOF)"
  shows "snd (workbookReader c f) = (new_xlsxWorkbook, Some EOF)
       \<and> WorkBook (fst (workbookReader c f)) = Some new_xlsxWorkbook
       \<and> snd (SetWorkbookProps c f None) = Some EOF"
proof -
  from workbookReader_load [OF assms] obtain f'
    where r: "workbookReader c f = (f', new_xlsxWorkbook, Some EOF)"
      and w: "WorkBook f' = Some new_xlsxWorkbook" by blast
  have "snd (SetWorkbookProps c f None) = Some EOF"
    by (simp add: SetWorkbookProps_def r)
  with r w show ?thesis by simp
qed

theorem workbookReader_empty_part_witness:
  "snd (workbookReader (toy_collab []) unloaded_file) = (new_xlsxWorkbook, Some EOF)
   \<and> WorkBook (fst (workbookReader (toy_collab []) unloaded_file)) = Some new_xlsxWorkbook
   \<and> snd (SetWorkbookProps (toy_collab []) unloaded_file None) = Some EOF"
proof -
  have a: "WorkBook unloaded_file = None" by (simp add: unloaded_file_def)
  have b: "Decode (toy_collab []) (namespaceStrictToTransitional (toy_collab [])
             (readXML (toy_collab []) (getWorkbookPath (toy_collab [])))) new_xlsxWorkbook
           = (new_xlsxWorkbook, Some EOF)"
    by (simp add: toy_Decode_def)
  from workbookReader_empty_part [OF a b] show ?thesis .
qed

text \<open>
  C5, as stated, fails: with a part that does not parse, the first call returns the
  decoder's error, but the workbook is cached all the same, and the second call returns
  it with no error.
\<close>

theorem workbookReader_decode_error_counterexample:
  "snd (snd (workbookReader (toy_collab ''<workbook'') unloaded_file))
     = Some (OtherError ''XML syntax error'')
   \<and> WorkBook (fst (workbookReader (toy_collab ''<workbook'') unloaded_file)) \<noteq> None
   \<and> snd (snd (workbookReader (toy_collab ''<workbook'')
                 (fst (workbookReader (toy_collab ''<workbook'') unloaded_file)))) = None"
  by (simp add: toy_reader_unloaded toy_Decode_def workbookReader_cached_lit)

text \<open>
  C5, amended. When the part cannot be parsed, the first \<open>workbookReader\<close> call returns
  the decoder's error together with the workbook as far as the decoder filled it; that
  workbook is cached, and every later call returns it with a nil error.
\<close>

theorem workbookReader_decode_error:
  assumes "WorkBook f = None"
    and "Decode c (namespaceStrictToTransitional c (readXML c (getWorkbookPath c)))
           new_xlsxWorkbook = (wb, Some e)"
    and "e \<noteq> EOF"
  shows "snd (workbookReader c f) = (wb, Some e)
       \<and> WorkBook (fst (workbookReader c f)) = Some wb
       \<and> workbookReader c (fst (workbookReader c f)) = (fst (workbookReader c f), wb, None)"
proof -
  from workbookReader_load [OF assms(1,2)] obtain f'
    where r: "workbookReader c f = (f', wb, Some e)" and w: "WorkBook f' = Some wb" by blast
  from w have "workbookReader c f' = (f', wb, None)" by (rule workbookReader_cached)
  with r w show ?thesis by simp
qed

theorem workbookReader_decode_error_witness:
  "snd (workbookReader (toy_collab ''<workbook'') unloaded_file)
     = (new_xlsxWorkbook\<lparr>Sheets := [sheet1]\<rparr>, Some (OtherError ''XML syntax error''))
   \<and> WorkBook (fst (workbookReader (toy_collab ''<workbook'') unloaded_file))
       = Some (new_xlsxWorkbook\<lparr>Sheets := [sheet1]\<rparr>)
   \<and> workbookReader (toy_collab ''<workbook'')
        (fst (workbookReader (toy_collab ''<workbook'') unloaded_file))
       = (fst (workbookReader (toy_collab ''<workbook'') unloaded_file),
          new_xlsxWorkbook\<lparr>Sheets := [sheet1]\<rparr>, None)"
proof -
  have a: "WorkBook unloaded_file = None" by (simp add: unloaded_file_def)
  have b: "Decode (toy_collab ''<workbook'')
             (namespaceStrictToTransitional (toy_collab ''<workbook'')
               (readXML (toy_collab ''<workbook'') (getWorkbookPath (toy_collab ''<workbook''))))
             new_xlsxWorkbook
           = (new_xlsxWorkbook\<lparr>Sheets := [sheet1]\<rparr>, Some (OtherError ''XML syntax error''))"
    by (simp add: toy_Decode_def sheet1_def)
  have c: "OtherError ''XML syntax error'' \<noteq> EOF" by simp
  from workbookReader_decode_error [OF a b c] show ?thesis .
qed

section \<open>Workbook properties with nil options\<close>

text \<open>
  C3, as stated, fails: on a workbook without a properties record,
  \<open>SetWorkbookProps(nil)\<close> returns nil but has allocated the record, and
  \<open>GetWorkbookProps\<close> then reports three populated fields instead of three nil ones.
\<close>

theorem SetWorkbookProps_nil_counterexample:
  "snd (SetWorkbookProps (toy_collab []) plain_file None) = None
   \<and> WorkBook (fst (SetWorkbookProps (toy_collab []) plain_file None)) \<noteq> WorkBook plain_file
   \<and> fst (snd (GetWorkbookProps (toy_collab []) plain_file))
       \<noteq> fst (snd (GetWorkbookProps (toy_collab [])
                      (fst (SetWorkbookProps (toy_collab []) plain_file None))))"
  by (simp add: SetWorkbookProps_def GetWorkbookProps_def plain_file_def plain_workbook_def
        workbookReader_cached_lit new_xlsxWorkbook_def new_xlsxWorkbookPr_def)

text \<open>
  C3, amended. Once the workbook is loaded, \<open>SetWorkbookProps(nil)\<close> returns nil. When
  the properties record is present nothing changes; when it is absent, a record of zero
  values (false, false, empty code name) is allocated and nothing else changes, so that
  \<open>GetWorkbookProps\<close>, which reported three nil fields before, reports false, false and
  the empty code name afterwards.
\<close>

theorem SetWorkbookProps_nil:
  assumes "workbookReader c f = (f1, wb, None)"
  shows "snd (SetWorkbookProps c f None) = None
       \<and> (WorkbookPr wb \<noteq> None \<longrightarrow> fst (SetWorkbookProps c f None) = f1)
       \<and> (WorkbookPr wb = None \<longrightarrow>
            fst (SetWorkbookProps c f None)
              = f1\<lparr>WorkBook := Some (wb\<lparr>WorkbookPr := Some new_xlsxWorkbookPr\<rparr>)\<rparr>
          \<and> fst (snd (GetWorkbookProps c f1))
              = \<lparr>WorkbookPropsOptions.Date1904 = None,
                 WorkbookPropsOptions.FilterPrivacy = None,
                 WorkbookPropsOptions.CodeName = None\<rparr>
          \<and> fst (snd (GetWorkbookProps c (fst (SetWorkbookProps c f None))))
              = \<lparr>WorkbookPropsOptions.Date1904 = Some False,
                 WorkbookPropsOptions.FilterPrivacy = Some False,
                 WorkbookPropsOptions.CodeName = Some []\<rparr>)
       \<and> (WorkBook f \<noteq> None \<longrightarrow> f1 = f)"
proof -
  have w: "WorkBook f1 = Some wb" using assms by (rule workbookReader_caches)
  then have r1: "workbookReader c f1 = (f1, wb, None)" by (rule workbookReader_cached)
  have a: "snd (SetWorkbookProps c f None) = None"
    using assms by (simp add: SetWorkbookProps_def)
  have b: "fst (SetWorkbookProps c f None) = f1" if "WorkbookPr wb \<noteq> None"
    using assms w that by (auto simp add: SetWorkbookProps_def)
  have n: "fst (SetWorkbookProps c f None)
             = f1\<lparr>WorkBook := Some (wb\<lparr>WorkbookPr := Some new_xlsxWorkbookPr\<rparr>)\<rparr>"
    if "WorkbookPr wb = None"
    using assms that by (simp add: SetWorkbookProps_def)
  have g0: "fst (snd (GetWorkbookProps c f1))
              = \<lparr>WorkbookPropsOptions.Date1904 = None,
                 WorkbookPropsOptions.FilterPrivacy = None,
                 WorkbookPropsOptions.CodeName = None\<rparr>"
    if "WorkbookPr wb = None"
    using that by (simp add: GetWorkbookProps_def r1)
  have g1: "fst (snd (GetWorkbookProps c
               (f1\<lparr>WorkBook := Some (wb\<lparr>WorkbookPr := Some new_xlsxWorkbookPr\<rparr>)\<rparr>)))
              = \<lparr>WorkbookPropsOptions.Date1904 = Some False,
                 WorkbookPropsOptions.FilterPrivacy = Some False,
                 WorkbookPropsOptions.CodeName = Some []\<rparr>"
    by (simp add: GetWorkbookProps_def workbookReader_cached new_xlsxWorkbookPr_def)
  have e: "f1 = f" if "WorkBook f \<noteq> None"
    using assms that by (auto simp add: workbookReader_cached)
  from a b n g0 g1 e show ?thesis by simp
qed

theorem SetWorkbookProps_nil_witness:
  "snd (SetWorkbookProps (toy_collab []) plain_file None) = None
   \<and> fst (SetWorkbookProps (toy_collab []) plain_file None)
       = plain_file\<lparr>WorkBook := Some (plain_workbook\<lparr>WorkbookPr := Some new_xlsxWorkbookPr\<rparr>)\<rparr>
   \<and> fst (snd (GetWorkbookProps (toy_collab [])
                 (fst (SetWorkbookProps (toy_collab []) plain_file None))))
       = \<lparr>WorkbookPropsOptions.Date1904 = Some False,
          WorkbookPropsOptions.FilterPrivacy = Some False,
          WorkbookPropsOptions.CodeName = Some []\<rparr>
   \<and> fst (SetWorkbookProps (toy_collab [])
            (plain_file\<lparr>WorkBook := Some (plain_workbook\<lparr>WorkbookPr := Some new_xlsxWorkbookPr\<rparr>)\<rparr>)
            None)
       = plain_file\<lparr>WorkBook := Some (plain_workbook\<lparr>WorkbookPr := Some new_xlsxWorkbookPr\<rparr>)\<rparr>"
proof -
  let ?g = "plain_file\<lparr>WorkBook := Some (plain_workbook\<lparr>WorkbookPr := Some new_xlsxWorkbookPr\<rparr>)\<rparr>"
  have b: "workbookReader (toy_collab []) ?g
             = (?g, plain_workbook\<lparr>WorkbookPr := Some new_xlsxWorkbookPr\<rparr>, None)"
    by (simp add: workbookReader_cached)
  note t = SetWorkbookProps_nil [OF plain_reader, of "toy_collab []"]
  have 1: "snd (SetWorkbookProps (toy_collab []) plain_file None) = None"
    by (rule t [THEN conjunct1])
  note u = t [THEN conjunct2, THEN conjunct2, THEN conjunct1, THEN mp, OF plain_workbook_bare(1)]
  have 2: "fst (SetWorkbookProps (toy_collab []) plain_file None) = ?g"
    by (rule u [THEN conjunct1])
  have 3: "fst (snd (GetWorkbookProps (toy_collab [])
                      (fst (SetWorkbookProps (toy_collab []) plain_file None))))
             = \<lparr>WorkbookPropsOptions.Date1904 = Some False,
                WorkbookPropsOptions.FilterPrivacy = Some False,
                WorkbookPropsOptions.CodeName = Some []\<rparr>"
    by (rule u [THEN conjunct2, THEN conjunct2])
  have p: "WorkbookPr (plain_workbook\<lparr>WorkbookPr := Some new_xlsxWorkbookPr\<rparr>) \<noteq> None"
    by simp
  have 4: "fst (SetWorkbookProps (toy_collab []) ?g None) = ?g"
    by (rule SetWorkbookProps_nil [OF b, THEN conjunct2, THEN conjunct1, THEN mp, OF p])
  from 1 2 3 4 show ?thesis by (intro conjI)
qed

section \<open>Removing protection\<close>

text \<open>
  C7. On a loaded workbook without a protection record, \<open>UnprotectWorkbook\<close> with a
  password argument returns \<open>ErrUnprotectWorkbook\<close> and changes nothing (a workbook
  that was already cached leaves the whole \<open>File\<close> as it was); without an argument the
  same call returns nil.
\<close>

theorem UnprotectWorkbook_not_protected:
  assumes "workbookReader c f = (f1, wb, None)" and "WorkbookProtection wb = None"
  shows "UnprotectWorkbook c f (pw # rest) = (f1, Some ErrUnprotectWorkbook)
       \<and> (WorkBook f \<noteq> None \<longrightarrow> f1 = f)
       \<and> UnprotectWorkbook c f [] = (f1, None)"
  using assms workbookReader_caches [OF assms(1)]
  by (auto simp add: UnprotectWorkbook_def workbookReader_cached)

theorem UnprotectWorkbook_not_protected_witness:
  "UnprotectWorkbook (toy_collab []) plain_file [''password'']
     = (plain_file, Some ErrUnprotectWorkbook)
   \<and> UnprotectWorkbook (toy_collab []) plain_file [] = (plain_file, None)"
  using UnprotectWorkbook_not_protected
          [OF plain_reader plain_workbook_bare(2), of "toy_collab []" "''password''" "[]"]
  by simp

text \<open>
  C8. On a loaded workbook, \<open>UnprotectWorkbook\<close> without a password argument returns nil
  and sets the protection record to nil, whatever the record held; the hash function is
  not consulted, and with no record present the call changes nothing.
\<close>

theorem UnprotectWorkbook_no_password:
  assumes "workbookReader c f = (f1, wb, None)"
  shows "UnprotectWorkbook c f [] = (f1\<lparr>WorkBook := Some (wb\<lparr>WorkbookProtection := None\<rparr>)\<rparr>, None)
       \<and> UnprotectWorkbook (c\<lparr>genISOPasswdHash := h\<rparr>) f [] = UnprotectWorkbook c f []
       \<and> (WorkbookProtection wb = None \<longrightarrow> UnprotectWorkbook c f [] = (f1, None))
       \<and> (WorkBook f \<noteq> None \<longrightarrow> f1 = f)"
  using assms workbookReader_caches [OF assms(1)]
  by (auto simp add: UnprotectWorkbook_def workbookReader_cached workbookReader_hash_irrelevant)

theorem UnprotectWorkbook_no_password_witness:
  "UnprotectWorkbook (toy_collab []) keyed_file [] = (plain_file, None)
   \<and> UnprotectWorkbook (toy_collab []) plain_file [] = (plain_file, None)"
proof -
  have e: "keyed_file\<lparr>WorkBook := Some (plain_workbook
             \<lparr>WorkbookProtection := Some keyed_protection, WorkbookProtection := None\<rparr>)\<rparr>
           = plain_file"
    by (simp add: keyed_file_def plain_file_def plain_workbook_def new_xlsxWorkbook_def)
  have a: "UnprotectWorkbook (toy_collab []) keyed_file [] = (plain_file, None)"
    using UnprotectWorkbook_no_password
            [OF keyed_reader, where c = "toy_collab []" and h = toy_hash] e
    by simp
  have b: "UnprotectWorkbook (toy_collab []) plain_file [] = (plain_file, None)"
    using UnprotectWorkbook_no_password
            [OF plain_reader, where c = "toy_collab []" and h = toy_hash] plain_workbook_bare(2)
    by blast
  from a b show ?thesis by simp
qed

section \<open>Setting protection\<close>

text \<open>
  C1, as stated, fails: protecting a workbook that carries hash material with a password
  and an algorithm name that the hash function rejects returns the error, and the
  protection record is no longer the one from before the call.
\<close>

theorem ProtectWorkbook_hash_error_counterexample:
  "snd (ProtectWorkbook (toy_collab []) keyed_file (Some ripemd_opts))
     = Some ErrUnsupportedHashAlgorithm
   \<and> WorkBook (fst (ProtectWorkbook (toy_collab []) keyed_file (Some ripemd_opts)))
       \<noteq> WorkBook keyed_file"
  by (simp add: ProtectWorkbook_def workbookReader_cached_lit ripemd_opts_def toy_hash_def
        keyed_file_def keyed_protection_def plain_workbook_def new_xlsxWorkbook_def)

text \<open>
  C1, amended. When \<open>ProtectWorkbook\<close> is called on a loaded workbook with a non-empty
  password and the hash function returns an error, that error is returned, and the
  protection record has by then been replaced by a new record that holds the two lock
  flags of the options and no hash material; the rest of the workbook is unchanged.
\<close>

theorem ProtectWorkbook_hash_error:
  assumes "workbookReader c f = (f1, wb, None)"
    and "Password opts \<noteq> []"
    and "genISOPasswdHash c (Password opts)
           (if AlgorithmName opts = [] then ''SHA-512'' else AlgorithmName opts) []
           (workbookProtectionSpinCount c) = Inl e"
  shows "ProtectWorkbook c f (Some opts)
       = (f1\<lparr>WorkBook := Some (wb\<lparr>WorkbookProtection := Some
             \<lparr>xlsxWorkbookProtection.LockStructure = WorkbookProtectionOptions.LockStructure opts,
              xlsxWorkbookProtection.LockWindows = WorkbookProtectionOptions.LockWindows opts,
              WorkbookAlgorithmName = [], WorkbookSaltValue = [], WorkbookHashValue = [],
              WorkbookSpinCount = 0\<rparr>\<rparr>)\<rparr>, Some e)"
  using assms by (simp add: ProtectWorkbook_def Let_def)

theorem ProtectWorkbook_hash_error_witness:
  "ProtectWorkbook (toy_collab []) keyed_file (Some ripemd_opts)
     = (keyed_file\<lparr>WorkBook := Some (plain_workbook\<lparr>WorkbookProtection := Some
           \<lparr>xlsxWorkbookProtection.LockStructure = False,
            xlsxWorkbookProtection.LockWindows = True,
            WorkbookAlgorithmName = [], WorkbookSaltValue = [], WorkbookHashValue = [],
            WorkbookSpinCount = 0\<rparr>\<rparr>)\<rparr>, Some ErrUnsupportedHashAlgorithm)"
proof -
  have p: "Password ripemd_opts \<noteq> []" by (simp add: ripemd_opts_def)
  have h: "genISOPasswdHash (toy_collab []) (Password ripemd_opts)
             (if AlgorithmName ripemd_opts = [] then ''SHA-512'' else AlgorithmName ripemd_opts) []
             (workbookProtectionSpinCount (toy_collab [])) = Inl ErrUnsupportedHashAlgorithm"
    by (simp add: ripemd_opts_def toy_hash_def)
  from ProtectWorkbook_hash_error [OF keyed_reader p h] show ?thesis
    by (simp add: ripemd_opts_def)
qed

text \<open>
  C2, as stated, fails: protecting a workbook that carries hash material with an empty
  password returns nil, and the record afterwards holds the new lock flags and empty
  hash material where the stored hash had been.
\<close>

theorem ProtectWorkbook_empty_password_counterexample:
  "snd (ProtectWorkbook (toy_collab []) keyed_file (Some flags_only_opts)) = None
   \<and> WorkBook (fst (ProtectWorkbook (toy_collab []) keyed_file (Some flags_only_opts)))
       = Some (plain_workbook\<lparr>WorkbookProtection := Some
                 \<lparr>xlsxWorkbookProtection.LockStructure = False,
                  xlsxWorkbookProtection.LockWindows = True,
                  WorkbookAlgorithmName = [], WorkbookSaltValue = [], WorkbookHashValue = [],
                  WorkbookSpinCount = 0\<rparr>\<rparr>)
   \<and> WorkBook keyed_file = Some (plain_workbook\<lparr>WorkbookProtection := Some
                 \<lparr>xlsxWorkbookProtection.LockStructure = True,
                  xlsxWorkbookProtection.LockWindows = False,
                  WorkbookAlgorithmName = ''SHA-512'', WorkbookSaltValue = ''c2FsdA=='',
                  WorkbookHashValue = ''SHA-512:c2FsdA==:password'',
                  WorkbookSpinCount = 100000\<rparr>\<rparr>)"
  by (simp add: ProtectWorkbook_def workbookReader_cached_lit flags_only_opts_def
        keyed_file_def keyed_protection_def)

text \<open>
  C2, amended. On a loaded workbook, \<open>ProtectWorkbook\<close> with an empty password returns
  nil without consulting the hash function, and replaces the protection record by a new
  one that holds the two lock flags of the options and empty hash material (empty
  algorithm name, salt and hash, spin count 0); the rest of the workbook is unchanged.
\<close>

theorem ProtectWorkbook_empty_password:
  assumes "workbookReader c f = (f1, wb, None)"
    and "Password opts = []"
  shows "ProtectWorkbook c f (Some opts)
       = (f1\<lparr>WorkBook := Some (wb\<lparr>WorkbookProtection := Some
             \<lparr>xlsxWorkbookProtection.LockStructure = WorkbookProtectionOptions.LockStructure opts,
              xlsxWorkbookProtection.LockWindows = WorkbookProtectionOptions.LockWindows opts,
              WorkbookAlgorithmName = [], WorkbookSaltValue = [], WorkbookHashValue = [],
              WorkbookSpinCount = 0\<rparr>\<rparr>)\<rparr>, None)
     \<and> ProtectWorkbook (c\<lparr>genISOPasswdHash := h\<rparr>) f (Some opts) = ProtectWorkbook c f (Some opts)"
  using assms by (simp add: ProtectWorkbook_def Let_def workbookReader_hash_irrelevant)

theorem ProtectWorkbook_empty_password_witness:
  "ProtectWorkbook (toy_collab []) keyed_file (Some flags_only_opts)
     = (keyed_file\<lparr>WorkBook := Some (plain_workbook\<lparr>WorkbookProtection := Some
           \<lparr>xlsxWorkbookProtection.LockStructure = False,
            xlsxWorkbookProtection.LockWindows = True,
            WorkbookAlgorithmName = [], WorkbookSaltValue = [], WorkbookHashValue = [],
            WorkbookSpinCount = 0\<rparr>\<rparr>)\<rparr>, None)"
proof -
  have p: "Password flags_only_opts = []" by (simp add: flags_only_opts_def)
  from ProtectWorkbook_empty_password [OF keyed_reader p, where c = "toy_collab []" and h = toy_hash]
  show ?thesis by (simp add: flags_only_opts_def)
qed

section \<open>Protecting, then removing protection\<close>

text \<open>
  What a successful \<open>ProtectWorkbook\<close> with a password leaves behind: the record with
  the lock flags, the algorithm name (\<open>SHA-512\<close> when none was given), and the salt,
  hash and spin count of the one hash computation.
\<close>

lemma ProtectWorkbook_password_ok:
  assumes "ProtectWorkbook c f (Some opts) = (f', None)" and "Password opts \<noteq> []"
  shows "\<exists>f1 wb hashValue saltValue.
           workbookReader c f = (f1, wb, None)
         \<and> genISOPasswdHash c (Password opts)
              (if AlgorithmName opts = [] then ''SHA-512'' else AlgorithmName opts) []
              (workbookProtectionSpinCount c) = Inr (hashValue, saltValue)
         \<and> f' = f1\<lparr>WorkBook := Some (wb\<lparr>WorkbookProtection := Some
               \<lparr>xlsxWorkbookProtection.LockStructure = WorkbookProtectionOptions.LockStructure opts,
                xlsxWorkbookProtection.LockWindows = WorkbookProtectionOptions.LockWindows opts,
                WorkbookAlgorithmName =
                  (if AlgorithmName opts = [] then ''SHA-512'' else AlgorithmName opts),
                WorkbookSaltValue = saltValue, WorkbookHashValue = hashValue,
                WorkbookSpinCount = workbookProtectionSpinCount c\<rparr>\<rparr>)\<rparr>"
  using assms
  by (auto simp add: ProtectWorkbook_def Let_def split: prod.splits option.splits sum.splits)

text \<open>
  \<open>UnprotectWorkbook\<close> with a password on a record with hash material: the outcome
  follows what the hash function returns for the stored algorithm, salt and spin count.
\<close>

lemma UnprotectWorkbook_keyed:
  assumes "workbookReader c f = (f1, wb, None)" and "WorkbookProtection wb = Some pr"
    and "WorkbookAlgorithmName pr \<noteq> []"
  shows "UnprotectWorkbook c f (q # rest) =
     (case genISOPasswdHash c q (WorkbookAlgorithmName pr) (WorkbookSaltValue pr)
             (WorkbookSpinCount pr) of
        Inl err \<Rightarrow> (f1, Some err)
      | Inr (hashValue, saltValue) \<Rightarrow>
          if WorkbookHashValue pr \<noteq> hashValue then (f1, Some ErrUnprotectWorkbookPassword)
          else (f1\<lparr>WorkBook := Some (wb\<lparr>WorkbookProtection := None\<rparr>)\<rparr>, None))"
  using assms by (simp add: UnprotectWorkbook_def split: sum.splits prod.splits)

lemma strict_collab_sel [simp]:
  "genISOPasswdHash strict_collab = strict_hash"
  "workbookProtectionSpinCount strict_collab = 100000"
  by (simp_all add: strict_collab_def)

lemma toy_hash_password:
  "toy_hash ''password'' ''SHA-512'' [] 100000 = Inr (''SHA-512:c2FsdA==:password'', ''c2FsdA=='')"
  "toy_hash ''password'' ''SHA-512'' ''c2FsdA=='' 100000
     = Inr (''SHA-512:c2FsdA==:password'', ''c2FsdA=='')"
  "toy_hash ''Password'' ''SHA-512'' ''c2FsdA=='' 100000
     = Inr (''SHA-512:c2FsdA==:Password'', ''c2FsdA=='')"
  by (simp_all add: toy_hash_def)

lemma strict_hash_password:
  "strict_hash ''password'' ''SHA-512'' [] 100000
     = Inr (''SHA-512:c2FsdA==:password'', ''c2FsdA=='')"
  "strict_hash [] ''SHA-512'' ''c2FsdA=='' 100000 = Inl (OtherError ''password length invalid'')"
  by (simp_all add: strict_hash_def toy_hash_password)

lemma protect_plain_toy:
  "ProtectWorkbook (toy_collab []) plain_file (Some password_opts) = (keyed_file, None)"
  by (simp add: ProtectWorkbook_def workbookReader_cached_lit password_opts_def
        toy_hash_password keyed_file_def keyed_protection_def plain_file_def)

lemma protect_plain_strict:
  "ProtectWorkbook strict_collab plain_file (Some password_opts) = (keyed_file, None)"
  by (simp add: ProtectWorkbook_def workbookReader_cached_lit password_opts_def
        strict_hash_password keyed_file_def keyed_protection_def plain_file_def)

lemma keyed_file_parts:
  "WorkBook keyed_file = Some wb' \<Longrightarrow> WorkbookProtection wb' = Some pr
     \<Longrightarrow> wb' = plain_workbook\<lparr>WorkbookProtection := Some keyed_protection\<rparr>
         \<and> pr = keyed_protection"
  by (auto simp add: keyed_file_def)

lemma keyed_protection_sel:
  "WorkbookAlgorithmName keyed_protection = ''SHA-512''"
  "WorkbookSaltValue keyed_protection = ''c2FsdA==''"
  "WorkbookHashValue keyed_protection = ''SHA-512:c2FsdA==:password''"
  "WorkbookSpinCount keyed_protection = 100000"
  by (simp_all add: keyed_protection_def)

lemma keyed_file_cleared:
  "keyed_file\<lparr>WorkBook := Some (plain_workbook\<lparr>WorkbookProtection := None\<rparr>)\<rparr> = plain_file"
  by (simp add: keyed_file_def plain_file_def plain_workbook_def new_xlsxWorkbook_def)

text \<open>
  C6, as stated, fails: after \<open>ProtectWorkbook\<close> has succeeded with the password
  \<open>password\<close>, \<open>UnprotectWorkbook\<close> with the empty password, which is another password,
  calls the hash function first and returns the error of a hash function that rejects
  an empty password; that error is not \<open>ErrUnprotectWorkbookPassword\<close>.
\<close>

theorem protect_then_unprotect_counterexample:
  "ProtectWorkbook strict_collab plain_file (Some password_opts) = (keyed_file, None)
   \<and> Password password_opts = ''password''
   \<and> UnprotectWorkbook strict_collab keyed_file [[]]
       = (keyed_file, Some (OtherError ''password length invalid''))
   \<and> snd (UnprotectWorkbook strict_collab keyed_file [[]]) \<noteq> Some ErrUnprotectWorkbookPassword"
proof -
  have p: "Password password_opts = ''password''" by (simp add: password_opts_def)
  have a: "WorkbookProtection (plain_workbook\<lparr>WorkbookProtection := Some keyed_protection\<rparr>)
             = Some keyed_protection" by simp
  have n: "WorkbookAlgorithmName keyed_protection \<noteq> []" by (simp add: keyed_protection_sel)
  have u: "UnprotectWorkbook strict_collab keyed_file [[]]
             = (keyed_file, Some (OtherError ''password length invalid''))"
    by (simp add: UnprotectWorkbook_keyed [OF keyed_reader a n] keyed_protection_sel
          strict_hash_password)
  from protect_plain_strict p u show ?thesis by simp
qed

text \<open>
  C6, amended. Let \<open>ProtectWorkbook\<close> succeed with the non-empty password \<open>p\<close>. Then the
  workbook holds a protection record with a non-empty algorithm name, and with the hash
  and the salt that the hash function derived from \<open>p\<close>. \<open>UnprotectWorkbook\<close> with a
  password calls the hash function with that password and the stored algorithm name,
  salt and spin count. When the hash it returns is the stored one, as for \<open>p\<close> with a
  hash function that derives the same hash again from the salt it returned, the call
  returns nil and sets the record to nil. When it returns a different hash, the call
  returns \<open>ErrUnprotectWorkbookPassword\<close> and changes nothing. When it returns an error,
  the call returns that error and changes nothing.
\<close>

theorem protect_then_unprotect:
  assumes prot: "ProtectWorkbook c f (Some opts) = (f', None)"
    and pw: "Password opts = p" "p \<noteq> []"
  shows "\<exists>wb' pr. WorkBook f' = Some wb' \<and> WorkbookProtection wb' = Some pr
           \<and> WorkbookAlgorithmName pr \<noteq> []
           \<and> genISOPasswdHash c p (WorkbookAlgorithmName pr) [] (WorkbookSpinCount pr)
               = Inr (WorkbookHashValue pr, WorkbookSaltValue pr)
           \<and> (\<forall>q hv sv.
                 genISOPasswdHash c q (WorkbookAlgorithmName pr) (WorkbookSaltValue pr)
                   (WorkbookSpinCount pr) = Inr (hv, sv) \<and> hv = WorkbookHashValue pr
                 \<longrightarrow> UnprotectWorkbook c f' [q]
                       = (f'\<lparr>WorkBook := Some (wb'\<lparr>WorkbookProtection := None\<rparr>)\<rparr>, None))
           \<and> (\<forall>q hv sv.
                 genISOPasswdHash c q (WorkbookAlgorithmName pr) (WorkbookSaltValue pr)
                   (WorkbookSpinCount pr) = Inr (hv, sv) \<and> hv \<noteq> WorkbookHashValue pr
                 \<longrightarrow> UnprotectWorkbook c f' [q] = (f', Some ErrUnprotectWorkbookPassword))
           \<and> (\<forall>q e.
                 genISOPasswdHash c q (WorkbookAlgorithmName pr) (WorkbookSaltValue pr)
                   (WorkbookSpinCount pr) = Inl e
                 \<longrightarrow> UnprotectWorkbook c f' [q] = (f', Some e))"
proof -
  let ?alg = "if AlgorithmName opts = [] then ''SHA-512'' else AlgorithmName opts"
  from ProtectWorkbook_password_ok [OF prot] pw obtain f1 wb hv sv where
    h: "genISOPasswdHash c p ?alg [] (workbookProtectionSpinCount c) = Inr (hv, sv)" and
    f': "f' = f1\<lparr>WorkBook := Some (wb\<lparr>WorkbookProtection := Some
               \<lparr>xlsxWorkbookProtection.LockStructure = WorkbookProtectionOptions.LockStructure opts,
                xlsxWorkbookProtection.LockWindows = WorkbookProtectionOptions.LockWindows opts,
                WorkbookAlgorithmName = ?alg,
                WorkbookSaltValue = sv, WorkbookHashValue = hv,
                WorkbookSpinCount = workbookProtectionSpinCount c\<rparr>\<rparr>)\<rparr>"
    by auto
  let ?pr = "\<lparr>xlsxWorkbookProtection.LockStructure = WorkbookProtectionOptions.LockStructure opts,
             xlsxWorkbookProtection.LockWindows = WorkbookProtectionOptions.LockWindows opts,
             WorkbookAlgorithmName = ?alg,
             WorkbookSaltValue = sv, WorkbookHashValue = hv,
             WorkbookSpinCount = workbookProtectionSpinCount c\<rparr>"
  let ?wb' = "wb\<lparr>WorkbookProtection := Some ?pr\<rparr>"
  have w: "WorkBook f' = Some ?wb'" by (simp add: f')
  have rd: "workbookReader c f' = (f', ?wb', None)" using w by (rule workbookReader_cached)
  have pr: "WorkbookProtection ?wb' = Some ?pr" by simp
  have alg: "WorkbookAlgorithmName ?pr \<noteq> []" by simp
  have stored: "genISOPasswdHash c p (WorkbookAlgorithmName ?pr) [] (WorkbookSpinCount ?pr)
                  = Inr (WorkbookHashValue ?pr, WorkbookSaltValue ?pr)"
    using h by simp
  note k = UnprotectWorkbook_keyed [OF rd pr alg]
  have same: "UnprotectWorkbook c f' [q]
                = (f'\<lparr>WorkBook := Some (?wb'\<lparr>WorkbookProtection := None\<rparr>)\<rparr>, None)"
    if "genISOPasswdHash c q (WorkbookAlgorithmName ?pr) (WorkbookSaltValue ?pr)
          (WorkbookSpinCount ?pr) = Inr (hv', sv')" and "hv' = WorkbookHashValue ?pr"
    for q hv' sv'
    using that by (simp add: k)
  have other: "UnprotectWorkbook c f' [q] = (f', Some ErrUnprotectWorkbookPassword)"
    if "genISOPasswdHash c q (WorkbookAlgorithmName ?pr) (WorkbookSaltValue ?pr)
          (WorkbookSpinCount ?pr) = Inr (hv', sv')" and "hv' \<noteq> WorkbookHashValue ?pr"
    for q hv' sv'
  proof -
    from that(2) have "hv \<noteq> hv'" by auto
    with that(1) show ?thesis by (simp add: k)
  qed
  have failed: "UnprotectWorkbook c f' [q] = (f', Some e)"
    if "genISOPasswdHash c q (WorkbookAlgorithmName ?pr) (WorkbookSaltValue ?pr)
          (WorkbookSpinCount ?pr) = Inl e"
    for q e
    using that by (simp add: k)
  show ?thesis
  proof (intro exI conjI allI impI)
    show "WorkBook f' = Some ?wb'" by (rule w)
    show "WorkbookProtection ?wb' = Some ?pr" by (rule pr)
    show "WorkbookAlgorithmName ?pr \<noteq> []" by (rule alg)
    show "genISOPasswdHash c p (WorkbookAlgorithmName ?pr) [] (WorkbookSpinCount ?pr)
            = Inr (WorkbookHashValue ?pr, WorkbookSaltValue ?pr)" by (rule stored)
  next
    fix q hv' sv'
    assume "genISOPasswdHash c q (WorkbookAlgorithmName ?pr) (WorkbookSaltValue ?pr)
              (WorkbookSpinCount ?pr) = Inr (hv', sv') \<and> hv' = WorkbookHashValue ?pr"
    then show "UnprotectWorkbook c f' [q]
                 = (f'\<lparr>WorkBook := Some (?wb'\<lparr>WorkbookProtection := None\<rparr>)\<rparr>, None)"
      using same [of q hv' sv'] by (elim conjE)
  next
    fix q hv' sv'
    assume "genISOPasswdHash c q (WorkbookAlgorithmName ?pr) (WorkbookSaltValue ?pr)
              (WorkbookSpinCount ?pr) = Inr (hv', sv') \<and> hv' \<noteq> WorkbookHashValue ?pr"
    then show "UnprotectWorkbook c f' [q] = (f', Some ErrUnprotectWorkbookPassword)"
      using other [of q hv' sv'] by (elim conjE)
  next
    fix q e
    assume "genISOPasswdHash c q (WorkbookAlgorithmName ?pr) (WorkbookSaltValue ?pr)
              (WorkbookSpinCount ?pr) = Inl e"
    then show "UnprotectWorkbook c f' [q] = (f', Some e)" by (rule failed)
  qed
qed

theorem protect_then_unprotect_witness:
  "ProtectWorkbook (toy_collab []) plain_file (Some password_opts) = (keyed_file, None)
   \<and> UnprotectWorkbook (toy_collab []) keyed_file [''password''] = (plain_file, None)
   \<and> UnprotectWorkbook (toy_collab []) keyed_file [''Password'']
       = (keyed_file, Some ErrUnprotectWorkbookPassword)
   \<and> UnprotectWorkbook strict_collab keyed_file [[]]
       = (keyed_file, Some (OtherError ''password length invalid''))"
proof -
  have b: "Password password_opts = ''password''" by (simp add: password_opts_def)
  have c: "''password'' \<noteq> []" by simp
  from protect_then_unprotect [OF protect_plain_toy b c] obtain wb' pr where
    w: "WorkBook keyed_file = Some wb'" and p: "WorkbookProtection wb' = Some pr" and
    same: "\<forall>q hv sv.
             genISOPasswdHash (toy_collab []) q (WorkbookAlgorithmName pr) (WorkbookSaltValue pr)
               (WorkbookSpinCount pr) = Inr (hv, sv) \<and> hv = WorkbookHashValue pr
             \<longrightarrow> UnprotectWorkbook (toy_collab []) keyed_file [q]
                   = (keyed_file\<lparr>WorkBook := Some (wb'\<lparr>WorkbookProtection := None\<rparr>)\<rparr>, None)" and
    other: "\<forall>q hv sv.
             genISOPasswdHash (toy_collab []) q (WorkbookAlgorithmName pr) (WorkbookSaltValue pr)
               (WorkbookSpinCount pr) = Inr (hv, sv) \<and> hv \<noteq> WorkbookHashValue pr
             \<longrightarrow> UnprotectWorkbook (toy_collab []) keyed_file [q]
                   = (keyed_file, Some ErrUnprotectWorkbookPassword)"
    by (elim exE conjE)
  from keyed_file_parts [OF w p] have wb': "wb' = plain_workbook\<lparr>WorkbookProtection := Some keyed_protection\<rparr>"
    and pr: "pr = keyed_protection" by simp_all
  have 1: "UnprotectWorkbook (toy_collab []) keyed_file [''password''] = (plain_file, None)"
    using same [THEN spec, THEN spec, THEN spec, THEN mp,
            of "''password''" "''SHA-512:c2FsdA==:password''" "''c2FsdA==''"]
    by (simp add: wb' pr keyed_protection_sel toy_hash_password keyed_file_cleared)
  have 2: "UnprotectWorkbook (toy_collab []) keyed_file [''Password'']
             = (keyed_file, Some ErrUnprotectWorkbookPassword)"
    using other [THEN spec, THEN spec, THEN spec, THEN mp,
            of "''Password''" "''SHA-512:c2FsdA==:Password''" "''c2FsdA==''"]
    by (simp add: pr keyed_protection_sel toy_hash_password)
  from protect_then_unprotect [OF protect_plain_strict b c] obtain wb2 pr2 where
    w2: "WorkBook keyed_file = Some wb2" and p2: "WorkbookProtection wb2 = Some pr2" and
    failed: "\<forall>q e.
             genISOPasswdHash strict_collab q (WorkbookAlgorithmName pr2) (WorkbookSaltValue pr2)
               (WorkbookSpinCount pr2) = Inl e
             \<longrightarrow> UnprotectWorkbook strict_collab keyed_file [q] = (keyed_file, Some e)"
    by (elim exE conjE)
  from keyed_file_parts [OF w2 p2] have pr2: "pr2 = keyed_protection" by simp
  have 3: "UnprotectWorkbook strict_collab keyed_file [[]]
             = (keyed_file, Some (OtherError ''password length invalid''))"
    using failed [THEN spec, THEN spec, THEN mp, of "[]" "OtherError ''password length invalid''"]
    by (simp add: pr2 keyed_protection_sel strict_hash_password)
  from protect_plain_toy 1 2 3 show ?thesis by (intro conjI)
qed

section \<open>Registering a sheet: the appended entry\<close>

lemma digit_char_value: "d < 10 \<Longrightarrow> of_char (digit_char d) = (48 + d :: nat)"
proof -
  assume "d < 10"
  then have "d = 0 \<or> d = 1 \<or> d = 2 \<or> d = 3 \<or> d = 4 \<or> d = 5 \<or> d = 6
    \<or> d = 7 \<or> d = 8 \<or> d = 9" by arith
  then show ?thesis by (elim disjE) (simp_all add: digit_char_def)
qed

lemma decimal_value_snoc:
  "decimal_value (s @ [ch]) = 10 * decimal_value s + (of_char ch - 48)"
  by (simp add: decimal_value_def)

lemma decimal_value_nat_digits: "decimal_value (nat_digits n) = n"
proof (induction n rule: nat_digits.induct)
  case (1 n)
  show ?case
  proof (cases "n < 10")
    case True
    then show ?thesis
      by (simp add: nat_digits.simps [of n] decimal_value_def digit_char_value)
  next
    case False
    have "n mod 10 < 10" by simp
    then have d: "of_char (digit_char (n mod 10)) = (48 + n mod 10 :: nat)"
      by (rule digit_char_value)
    from False have "nat_digits n = nat_digits (n div 10) @ [digit_char (n mod 10)]"
      by (simp add: nat_digits.simps [of n])
    then have "decimal_value (nat_digits n) = 10 * decimal_value (nat_digits (n div 10)) + n mod 10"
      by (simp add: decimal_value_snoc d)
    also have "\<dots> = 10 * (n div 10) + n mod 10" using "1.IH" [OF False] by simp
    also have "\<dots> = n" by simp
    finally show ?thesis .
  qed
qed

lemma strconv_Itoa_decimal: "0 \<le> i \<Longrightarrow> decimal_value (strconv_Itoa i) = nat i"
  by (simp add: strconv_Itoa_def decimal_value_nat_digits)

lemma strconv_Itoa_negative: "i < 0 \<Longrightarrow> strconv_Itoa i = CHR ''-'' # strconv_Itoa (- i)"
  by (simp add: strconv_Itoa_def)

lemma Itoa_3: "strconv_Itoa 3 = ''3''"
  by (simp add: strconv_Itoa_def nat_digits.simps [of 3] digit_char_def)

text \<open>
  C10. \<open>setWorkbook\<close> appends exactly the entry with the given name, the given sheet id
  and the relationship id \<open>rId\<close> followed by \<open>rid\<close> in decimal at the end of the sheet
  list of the workbook that \<open>workbookReader\<close> returned, and changes nothing else;
  whatever error the reader returned is dropped, the function has no error result. With
  a workbook already cached, the \<open>File\<close> is otherwise as before. The digits written
  for a non-negative \<open>rid\<close> denote \<open>rid\<close>, and a negative one is written as a minus
  sign and the digits of its negation.
\<close>

theorem setWorkbook_appends:
  assumes "workbookReader c f = (f1, wb, err)"
  shows "setWorkbook c f name sheetID rid
           = f1\<lparr>WorkBook := Some (wb\<lparr>Sheets := Sheets wb @
                 [\<lparr>Name = name, SheetID = sheetID, ID = ''rId'' @ strconv_Itoa rid\<rparr>]\<rparr>)\<rparr>
       \<and> (WorkBook f \<noteq> None \<longrightarrow> f1 = f \<and> WorkBook f = Some wb \<and> err = None)
       \<and> (0 \<le> rid \<longrightarrow> decimal_value (strconv_Itoa rid) = nat rid)
       \<and> (rid < 0 \<longrightarrow> strconv_Itoa rid = CHR ''-'' # strconv_Itoa (- rid))"
proof -
  have "setWorkbook c f name sheetID rid
           = f1\<lparr>WorkBook := Some (wb\<lparr>Sheets := Sheets wb @
                 [\<lparr>Name = name, SheetID = sheetID, ID = ''rId'' @ strconv_Itoa rid\<rparr>]\<rparr>)\<rparr>"
    using assms by (simp add: setWorkbook_def)
  moreover have "WorkBook f \<noteq> None \<longrightarrow> f1 = f \<and> WorkBook f = Some wb \<and> err = None"
    using assms by (auto simp add: workbookReader_cached)
  ultimately show ?thesis
    using strconv_Itoa_decimal [of rid] strconv_Itoa_negative [of rid] by blast
qed

theorem setWorkbook_appends_witness:
  "setWorkbook (toy_collab []) plain_file ''Sheet2'' 2 3
     = plain_file\<lparr>WorkBook := Some (plain_workbook\<lparr>Sheets :=
         [sheet1, \<lparr>Name = ''Sheet2'', SheetID = 2, ID = ''rId3''\<rparr>]\<rparr>)\<rparr>
   \<and> WorkBook (setWorkbook (toy_collab ''<workbook'') unloaded_file ''Sheet2'' 2 3)
       = Some (new_xlsxWorkbook\<lparr>Sheets :=
           [sheet1, \<lparr>Name = ''Sheet2'', SheetID = 2, ID = ''rId3''\<rparr>]\<rparr>)"
proof -
  have s: "Sheets plain_workbook = [sheet1]" by (simp add: plain_workbook_def)
  have r: "workbookReader (toy_collab ''<workbook'') unloaded_file
             = (\<lparr>WorkBook = Some (new_xlsxWorkbook\<lparr>Sheets := [sheet1]\<rparr>),
                 xmlAttr = [''xl/workbook.xml'' \<mapsto> []]\<rparr>,
                new_xlsxWorkbook\<lparr>Sheets := [sheet1]\<rparr>, Some (OtherError ''XML syntax error''))"
    by (simp add: toy_reader_unloaded toy_Decode_def sheet1_def)
  from setWorkbook_appends [OF plain_reader, of "toy_collab []" "''Sheet2''" 2 3]
       setWorkbook_appends [OF r, of "''Sheet2''" 2 3] s
  show ?thesis by (simp add: Itoa_3)
qed

section \<open>Path resolution: the relationship part\<close>

lemma findWorkbookTarget_none:
  "\<forall>rel \<in> set rels. Type rel \<noteq> ty \<Longrightarrow> findWorkbookTarget ty rels = []"
  by (induction rels) auto

lemma findWorkbookTarget_first:
  "\<forall>r \<in> set pre. Type r \<noteq> ty \<Longrightarrow> Type rel = ty
     \<Longrightarrow> findWorkbookTarget ty (pre @ rel # post) = strings_TrimPrefix (Target rel) ''/''"
  by (induction pre) auto

lemma TrimPrefix_sep:
  "strings_TrimPrefix t ''/'' = (case t of [] \<Rightarrow> [] | ch # r \<Rightarrow> if ch = CHR ''/'' then r else t)"
  by (cases t) (auto simp: strings_TrimPrefix_def)

lemma split_sep_elem: "CHR ''/'' \<notin> set d \<Longrightarrow> split_sep (d @ CHR ''/'' # r) = d # split_sep r"
  by (induction d) (auto split: list.splits)

lemma plain_elem_hd: "plain_elem e \<Longrightarrow> e \<noteq> [] \<and> hd e \<noteq> CHR ''/''"
  unfolding plain_elem_def by (cases e) auto

lemma join_sep_Cons: "es \<noteq> [] \<Longrightarrow> join_sep (e # es) = e @ CHR ''/'' # join_sep es"
  by (cases es) auto

lemma join_sep_hd: "e \<noteq> [] \<Longrightarrow> join_sep (e # es) \<noteq> [] \<and> hd (join_sep (e # es)) = hd e"
  by (cases es) auto

lemma join_sep_plain_hd:
  assumes "es \<noteq> []" "\<forall>e \<in> set es. plain_elem e"
  shows "join_sep es \<noteq> [] \<and> hd (join_sep es) \<noteq> CHR ''/''"
proof (cases es)
  case Nil
  with assms show ?thesis by simp
next
  case (Cons e es')
  with assms have "plain_elem e" by simp
  then have "e \<noteq> []" "hd e \<noteq> CHR ''/''" using plain_elem_hd by blast+
  then show ?thesis using join_sep_hd [of e es'] Cons by simp
qed

lemma join_sep_plain_not_dot:
  assumes "es \<noteq> []" "\<forall>e \<in> set es. plain_elem e"
  shows "join_sep es \<noteq> ''.''"
proof (cases es)
  case Nil
  with assms show ?thesis by simp
next
  case (Cons e es')
  with assms have p: "plain_elem e" by simp
  show ?thesis
  proof (cases es')
    case Nil
    with Cons p show ?thesis unfolding plain_elem_def by simp
  next
    case (Cons a list)
    from p have "e \<noteq> []" unfolding plain_elem_def by simp
    have j: "join_sep (e # es') = e @ CHR ''/'' # join_sep es'"
      using Cons by (simp add: join_sep_Cons)
    have "e @ CHR ''/'' # join_sep es' \<noteq> ''.''"
    proof
      assume "e @ CHR ''/'' # join_sep es' = ''.''"
      then have "length (e @ CHR ''/'' # join_sep es') = length ''.''" by (rule arg_cong)
      then show False using \<open>e \<noteq> []\<close> by simp
    qed
    with j \<open>es = e # es'\<close> show ?thesis by simp
  qed
qed

lemma clean_elems_step:
  "plain_elem e \<Longrightarrow> clean_elems rooted (e # es) out = clean_elems rooted es (out @ [e])"
  by (simp add: plain_elem_def)

lemma clean_elems_plain:
  "\<forall>e \<in> set es. plain_elem e \<Longrightarrow> clean_elems rooted es out = out @ es"
proof (induction es arbitrary: out)
  case Nil
  then show ?case by simp
next
  case (Cons e es)
  then have "plain_elem e" and "\<forall>e \<in> set es. plain_elem e" by simp_all
  then show ?case using Cons.IH [of "out @ [e]"] by (simp only: clean_elems_step) simp
qed

lemma split_join:
  "es \<noteq> [] \<Longrightarrow> \<forall>e \<in> set es. CHR ''/'' \<notin> set e
     \<Longrightarrow> split_sep (join_sep es @ CHR ''/'' # r) = es @ split_sep r"
proof (induction es rule: join_sep.induct)
  case 1
  then show ?case by simp
next
  case (2 e)
  then show ?case by (simp add: split_sep_elem)
next
  case (3 e v va)
  then show ?case by (simp add: split_sep_elem)
qed

lemma clean_elems_append:
  "clean_elems rooted (xs @ ys) out = clean_elems rooted ys (clean_elems rooted xs out)"
  by (induction xs arbitrary: out) auto

lemma dropWhile_to_sep:
  "CHR ''/'' \<notin> set xs \<Longrightarrow>
     dropWhile (\<lambda>ch. ch \<noteq> CHR ''/'') (xs @ CHR ''/'' # r) = CHR ''/'' # r"
  by (induction xs) auto

lemma dropWhile_no_sep:
  "CHR ''/'' \<notin> set xs \<Longrightarrow> dropWhile (\<lambda>ch. ch \<noteq> CHR ''/'') xs = []"
  by (induction xs) auto

lemma takeWhile_to_sep:
  "CHR ''/'' \<notin> set xs \<Longrightarrow> takeWhile (\<lambda>ch. ch \<noteq> CHR ''/'') (xs @ CHR ''/'' # r) = xs"
  by (induction xs) auto

lemma takeWhile_no_sep:
  "CHR ''/'' \<notin> set xs \<Longrightarrow> takeWhile (\<lambda>ch. ch \<noteq> CHR ''/'') xs = xs"
  by (induction xs) auto

lemma filepath_Dir_nested:
  assumes "es \<noteq> []" "\<forall>e \<in> set es. plain_elem e" "CHR ''/'' \<notin> set b"
  shows "filepath_Dir (join_sep es @ CHR ''/'' # b) = join_sep es"
proof -
  from assms have h: "join_sep es \<noteq> []" "hd (join_sep es) \<noteq> CHR ''/''"
    using join_sep_plain_hd by blast+
  from assms have s: "\<forall>e \<in> set es. CHR ''/'' \<notin> set e" by (simp add: plain_elem_def)
  have "split_sep (join_sep es @ ''/'') = es @ [[]]"
    using split_join [OF assms(1) s, of "[]"] by simp
  moreover have "clean_elems False (es @ [[]]) [] = es"
    by (simp add: clean_elems_append clean_elems_plain assms)
  ultimately have "filepath_Clean (join_sep es @ ''/'') = join_sep es"
    using h by (simp add: filepath_Clean_def Let_def)
  then show ?thesis using assms(3) by (simp add: filepath_Dir_def dropWhile_to_sep)
qed

lemma filepath_Dir_root:
  "CHR ''/'' \<notin> set b \<Longrightarrow> filepath_Dir b = ''.''"
  by (simp add: filepath_Dir_def dropWhile_no_sep filepath_Clean_def)

lemma filepath_Base_last:
  assumes "b \<noteq> []" "CHR ''/'' \<notin> set b"
  shows "filepath_Base (d @ CHR ''/'' # b) = b" and "filepath_Base b = b"
proof -
  from assms have l: "last b \<noteq> CHR ''/''" by (metis last_in_set)
  have t: "dropWhile (\<lambda>ch. ch = CHR ''/'') (rev b @ r) = rev b @ r" for r
    using assms l by (cases b rule: rev_cases) auto
  have k: "takeWhile (\<lambda>ch. ch \<noteq> CHR ''/'') (rev b @ CHR ''/'' # r) = rev b" for r
    using assms by (simp add: takeWhile_to_sep)
  have k': "takeWhile (\<lambda>ch. ch \<noteq> CHR ''/'') (rev b) = rev b"
    using assms by (simp add: takeWhile_no_sep)
  show "filepath_Base (d @ CHR ''/'' # b) = b"
    using assms by (simp add: filepath_Base_def Let_def t k)
  show "filepath_Base b = b"
    using assms t [of "[]"] by (simp add: filepath_Base_def Let_def k')
qed

lemma getWorkbookRelsPath_nested:
  assumes "getWorkbookPath c = join_sep es @ CHR ''/'' # b"
    and "es \<noteq> []" "\<forall>e \<in> set es. plain_elem e" "b \<noteq> []" "CHR ''/'' \<notin> set b"
  shows "getWorkbookRelsPath c = join_sep es @ ''/_rels/'' @ b @ ''.rels''"
proof -
  from assms have h: "join_sep es \<noteq> []" "hd (join_sep es) \<noteq> CHR ''/''"
    using join_sep_plain_hd by blast+
  have d: "filepath_Dir (getWorkbookPath c) = join_sep es"
    using assms by (simp add: filepath_Dir_nested)
  have nd: "join_sep es \<noteq> ''.''"
    using assms(2,3) by (rule join_sep_plain_not_dot)
  have bs: "filepath_Base (getWorkbookPath c) = b"
    using assms by (simp add: filepath_Base_last)
  have tp: "strings_TrimPrefix (join_sep es @ r) ''/'' = join_sep es @ r" for r
    using h by (cases "join_sep es") (auto simp: strings_TrimPrefix_def)
  show ?thesis using nd by (simp add: getWorkbookRelsPath_def Let_def d bs tp)
qed

lemma getWorkbookRelsPath_root:
  assumes "getWorkbookPath c = b" "b \<noteq> []" "CHR ''/'' \<notin> set b"
  shows "getWorkbookRelsPath c = ''_rels/'' @ b @ ''.rels''"
  using assms by (simp add: getWorkbookRelsPath_def Let_def filepath_Dir_root filepath_Base_last)

lemma plain_xl: "plain_elem ''xl''"
  by (simp add: plain_elem_def)

lemma getWorkbookRelsPath_xl:
  assumes "getWorkbookPath c = ''xl/workbook.xml''"
  shows "getWorkbookRelsPath c = ''xl/_rels/workbook.xml.rels''"
proof -
  have a: "getWorkbookPath c = join_sep [''xl''] @ CHR ''/'' # ''workbook.xml''"
    using assms by simp
  have "getWorkbookRelsPath c = join_sep [''xl''] @ ''/_rels/'' @ ''workbook.xml'' @ ''.rels''"
    by (rule getWorkbookRelsPath_nested [OF a]) (simp_all add: plain_xl)
  then show ?thesis by simp
qed

lemma getWorkbookRelsPath_top:
  assumes "getWorkbookPath c = ''workbook.xml''"
  shows "getWorkbookRelsPath c = ''_rels/workbook.xml.rels''"
proof -
  have "getWorkbookRelsPath c = ''_rels/'' @ ''workbook.xml'' @ ''.rels''"
    by (rule getWorkbookRelsPath_root [OF assms]) simp_all
  then show ?thesis by simp
qed


lemma rels_collab_sel [simp]:
  "relsReader (rels_collab rels) ''_rels/.rels'' = rels"
  "SourceRelationshipOfficeDocument (rels_collab rels) = ''officeDocument''"
  by (simp_all add: rels_collab_def toy_collab_def)

text \<open>
  C9. \<open>getWorkbookPath\<close> returns the empty string when there is no relationship part
  or when no relationship in it has the office-document type; otherwise it returns the
  target of the first such relationship, without its leading separator when it has one.
  \<open>getWorkbookRelsPath\<close> returns \<open>xl/_rels/workbook.xml.rels\<close> for the workbook path
  \<open>xl/workbook.xml\<close> and \<open>_rels/workbook.xml.rels\<close> for \<open>workbook.xml\<close>; in general,
  for a workbook path made of plain directory names and a file name, it is the directory,
  \<open>/_rels/\<close>, the file name and \<open>.rels\<close>, and for a bare file name it is \<open>_rels/\<close>, the
  file name and \<open>.rels\<close>.
\<close>

theorem workbook_paths:
  "(relsReader c ''_rels/.rels'' = None \<longrightarrow> getWorkbookPath c = [])
 \<and> (relsReader c ''_rels/.rels'' = Some rels
      \<and> (\<forall>rel \<in> set rels. Type rel \<noteq> SourceRelationshipOfficeDocument c)
     \<longrightarrow> getWorkbookPath c = [])
 \<and> (relsReader c ''_rels/.rels'' = Some (pre @ rel # post)
      \<and> (\<forall>r \<in> set pre. Type r \<noteq> SourceRelationshipOfficeDocument c)
      \<and> Type rel = SourceRelationshipOfficeDocument c
     \<longrightarrow> getWorkbookPath c
           = (case Target rel of [] \<Rightarrow> [] | ch # t \<Rightarrow> if ch = CHR ''/'' then t else Target rel))
 \<and> (getWorkbookPath c = ''xl/workbook.xml''
     \<longrightarrow> getWorkbookRelsPath c = ''xl/_rels/workbook.xml.rels'')
 \<and> (getWorkbookPath c = ''workbook.xml''
     \<longrightarrow> getWorkbookRelsPath c = ''_rels/workbook.xml.rels'')
 \<and> (getWorkbookPath c = join_sep es @ CHR ''/'' # b
      \<and> es \<noteq> [] \<and> (\<forall>e \<in> set es. plain_elem e) \<and> b \<noteq> [] \<and> CHR ''/'' \<notin> set b
     \<longrightarrow> getWorkbookRelsPath c = join_sep es @ ''/_rels/'' @ b @ ''.rels'')
 \<and> (getWorkbookPath c = b \<and> b \<noteq> [] \<and> CHR ''/'' \<notin> set b
     \<longrightarrow> getWorkbookRelsPath c = ''_rels/'' @ b @ ''.rels'')"
proof (intro conjI impI)
  assume "relsReader c ''_rels/.rels'' = None"
  then show "getWorkbookPath c = []" by (simp add: getWorkbookPath_def)
next
  assume "relsReader c ''_rels/.rels'' = Some rels
      \<and> (\<forall>rel \<in> set rels. Type rel \<noteq> SourceRelationshipOfficeDocument c)"
  then show "getWorkbookPath c = []"
    by (simp add: getWorkbookPath_def findWorkbookTarget_none)
next
  assume a: "relsReader c ''_rels/.rels'' = Some (pre @ rel # post)
      \<and> (\<forall>r \<in> set pre. Type r \<noteq> SourceRelationshipOfficeDocument c)
      \<and> Type rel = SourceRelationshipOfficeDocument c"
  then have "getWorkbookPath c = strings_TrimPrefix (Target rel) ''/''"
    by (simp add: getWorkbookPath_def findWorkbookTarget_first del: findWorkbookTarget.simps)
  then show "getWorkbookPath c
           = (case Target rel of [] \<Rightarrow> [] | ch # t \<Rightarrow> if ch = CHR ''/'' then t else Target rel)"
    by (simp only: TrimPrefix_sep)
next
  assume "getWorkbookPath c = ''xl/workbook.xml''"
  then show "getWorkbookRelsPath c = ''xl/_rels/workbook.xml.rels''"
    by (rule getWorkbookRelsPath_xl)
next
  assume "getWorkbookPath c = ''workbook.xml''"
  then show "getWorkbookRelsPath c = ''_rels/workbook.xml.rels''"
    by (rule getWorkbookRelsPath_top)
next
  assume "getWorkbookPath c = join_sep es @ CHR ''/'' # b
      \<and> es \<noteq> [] \<and> (\<forall>e \<in> set es. plain_elem e) \<and> b \<noteq> [] \<and> CHR ''/'' \<notin> set b"
  then show "getWorkbookRelsPath c = join_sep es @ ''/_rels/'' @ b @ ''.rels''"
    using getWorkbookRelsPath_nested [of c es b] by blast
next
  assume "getWorkbookPath c = b \<and> b \<noteq> [] \<and> CHR ''/'' \<notin> set b"
  then show "getWorkbookRelsPath c = ''_rels/'' @ b @ ''.rels''"
    using getWorkbookRelsPath_root [of c b] by blast
qed


theorem workbook_paths_witness:
  "getWorkbookPath (rels_collab None) = []
   \<and> getWorkbookPath (rels_collab (Some [app_rel])) = []
   \<and> getWorkbookPath (toy_collab []) = ''xl/workbook.xml''
   \<and> getWorkbookRelsPath (toy_collab []) = ''xl/_rels/workbook.xml.rels''
   \<and> getWorkbookPath (rels_collab (Some [root_rel])) = ''workbook.xml''
   \<and> getWorkbookRelsPath (rels_collab (Some [root_rel])) = ''_rels/workbook.xml.rels''"
proof -
  have 1: "getWorkbookPath (rels_collab None) = []"
    by (rule workbook_paths [where c = "rels_collab None", THEN conjunct1, THEN mp]) simp
  have 2: "getWorkbookPath (rels_collab (Some [app_rel])) = []"
    by (rule workbook_paths [where c = "rels_collab (Some [app_rel])" and rels = "[app_rel]",
          THEN conjunct2, THEN conjunct1, THEN mp])
       (simp add: app_rel_def)
  have "getWorkbookPath (toy_collab [])
          = (case Target doc_rel of [] \<Rightarrow> []
             | ch # t \<Rightarrow> if ch = CHR ''/'' then t else Target doc_rel)"
    by (rule workbook_paths [where c = "toy_collab []" and pre = "[app_rel]" and rel = doc_rel
          and post = "[]", THEN conjunct2, THEN conjunct2, THEN conjunct1, THEN mp])
       (simp add: toy_rels_def app_rel_def doc_rel_def)
  then have 3: "getWorkbookPath (toy_collab []) = ''xl/workbook.xml''"
    by (simp add: doc_rel_def)
  have 4: "getWorkbookRelsPath (toy_collab []) = ''xl/_rels/workbook.xml.rels''"
    by (rule workbook_paths [where c = "toy_collab []", THEN conjunct2, THEN conjunct2,
          THEN conjunct2, THEN conjunct1, THEN mp])
       (rule 3)
  have "getWorkbookPath (rels_collab (Some [root_rel]))
          = (case Target root_rel of [] \<Rightarrow> []
             | ch # t \<Rightarrow> if ch = CHR ''/'' then t else Target root_rel)"
    by (rule workbook_paths [where c = "rels_collab (Some [root_rel])" and pre = "[]"
          and rel = root_rel and post = "[]",
          THEN conjunct2, THEN conjunct2, THEN conjunct1, THEN mp])
       (simp add: root_rel_def)
  then have 5: "getWorkbookPath (rels_collab (Some [root_rel])) = ''workbook.xml''"
    by (simp add: root_rel_def)
  have 6: "getWorkbookRelsPath (rels_collab (Some [root_rel])) = ''_rels/workbook.xml.rels''"
    by (rule workbook_paths [where c = "rels_collab (Some [root_rel])", THEN conjunct2,
          THEN conjunct2, THEN conjunct2, THEN conjunct2, THEN conjunct1, THEN mp])
       (rule 5)
  from 1 2 3 4 5 6 show ?thesis by (intro conjI)
qed

end
